theory Spec2Isabelle
  imports Main
begin

section \<open>Values of encoding/json\<close>

text \<open>
  The dynamic values that Go's \<^verbatim>\<open>encoding/json\<close> stores in an \<^verbatim>\<open>any\<close>: nil, bool,
  float64 (a finite binary float, given by mantissa and exponent; no function of the
  program looks inside one), string, \<^verbatim>\<open>[]any\<close> and \<^verbatim>\<open>map[string]any\<close>. The same
  datatype stands for a JSON document. A Go string is a sequence of bytes, here a
  \<^typ>\<open>string\<close>.
\<close>

datatype json =
    JNull
  | JBool bool
  | JNumber int int
  | JString string
  | JArray "json list"
  | JObject "(string \<times> json) list"

text \<open>
  \<^verbatim>\<open>m[key]\<close> on a \<^verbatim>\<open>map[string]any\<close>: a missing key (and a nil map) gives the zero
  value of \<^verbatim>\<open>any\<close>, the nil interface. \<^verbatim>\<open>v.(string)\<close> in its two-result form never panics:
  it gives the string and true, or the empty string and false.
\<close>

definition index :: "(string \<rightharpoonup> json) \<Rightarrow> string \<Rightarrow> json" where
  "index m key = (case m key of None \<Rightarrow> JNull | Some v \<Rightarrow> v)"

fun assert_string :: "json \<Rightarrow> string \<times> bool" where
  "assert_string (JString s) = (s, True)"
| "assert_string _ = ('''', False)"

section \<open>types/types.go: hook inputs\<close>

definition ExitCodeSuccess :: int where
  "ExitCodeSuccess = 0"

definition ExitCodeBlockingError :: int where
  "ExitCodeBlockingError = 2"

definition ExitCodeError :: int where
  "ExitCodeError = 1"

record BaseHookInput =
  SessionID :: string
  TranscriptPath :: string
  HookEventName :: string

record ToolInput = BaseHookInput +
  ToolName :: string
  ToolInput :: "string \<rightharpoonup> json"

record PostToolUseInput = ToolInput +
  ToolResponse :: "string \<rightharpoonup> json"

record NotificationInput = BaseHookInput +
  Message :: string

record StopInput = BaseHookInput +
  StopHookActive :: bool

record SubagentStopInput = BaseHookInput +
  StopHookActive :: bool

text \<open>
  \<^verbatim>\<open>GetFilePath\<close> is a method of \<^verbatim>\<open>*ToolInput\<close>; \<^verbatim>\<open>PostToolUseInput\<close> embeds
  \<^verbatim>\<open>ToolInput\<close>, so the method is called on both, as the record scheme allows here.
\<close>

definition GetFilePath :: "'a ToolInput_scheme \<Rightarrow> string" where
  "GetFilePath t =
     (let (filePath, ok) = assert_string (index (ToolInput t) ''file_path'')
      in if \<not> ok then '''' else filePath)"

section \<open>types/types.go: hook outputs\<close>

text \<open>
  A pointer field (\<^verbatim>\<open>*bool\<close>, \<^verbatim>\<open>*string\<close>) is an option: \<open>None\<close> is nil, and
  \<^verbatim>\<open>ptr(x)\<close> is \<open>Some x\<close>.
\<close>

record BaseHookOutput =
  Continue :: "bool option"
  StopReason :: string
  SuppressOutput :: bool

record DecisionOutput = BaseHookOutput +
  Decision :: "string option"
  Reason :: "string option"

text \<open>
  \<^verbatim>\<open>PreToolUseOutput\<close>, \<^verbatim>\<open>PostToolUseOutput\<close> and \<^verbatim>\<open>StopOutput\<close> are defined types with
  the struct of \<^verbatim>\<open>DecisionOutput\<close>: the same fields and tags, each with its own methods,
  and the methods of the embedded \<^verbatim>\<open>BaseHookOutput\<close> promoted.
\<close>

type_synonym PreToolUseOutput = DecisionOutput
type_synonym PostToolUseOutput = DecisionOutput
type_synonym StopOutput = DecisionOutput

text \<open>The zero values, as \<^verbatim>\<open>new(T)\<close> and \<^verbatim>\<open>var ret T\<close> give them.\<close>

definition zero_BaseHookOutput :: BaseHookOutput where
  "zero_BaseHookOutput = \<lparr>Continue = None, StopReason = '''', SuppressOutput = False\<rparr>"

definition zero_DecisionOutput :: DecisionOutput where
  "zero_DecisionOutput =
     \<lparr>Continue = None, StopReason = '''', SuppressOutput = False,
      Decision = None, Reason = None\<rparr>"

definition BaseHookOutput_Stop ::
  "'a BaseHookOutput_scheme \<Rightarrow> string \<Rightarrow> 'a BaseHookOutput_scheme" where
  "BaseHookOutput_Stop out userMessage =
     (let out1 = (if Continue out = None then out\<lparr>Continue := Some True\<rparr> else out)
      in out1\<lparr>StopReason := userMessage\<rparr>)"

definition BaseHookOutput_IgnoreStdout ::
  "'a BaseHookOutput_scheme \<Rightarrow> 'a BaseHookOutput_scheme" where
  "BaseHookOutput_IgnoreStdout out = out\<lparr>SuppressOutput := True\<rparr>"

text \<open>The variadic \<^verbatim>\<open>msg ...string\<close> is the list of the messages passed.\<close>

definition PreToolUseOutput_Approve ::
  "PreToolUseOutput \<Rightarrow> bool \<Rightarrow> string list \<Rightarrow> PreToolUseOutput" where
  "PreToolUseOutput_Approve out approved msg =
     (if approved then
        (let out1 = out\<lparr>Decision := Some ''approve''\<rparr>
         in case msg of [] \<Rightarrow> out1 | m # _ \<Rightarrow> out1\<lparr>Reason := Some m\<rparr>)
      else
        (let out1 = out\<lparr>Decision := Some ''block''\<rparr>
         in case msg of
              [] \<Rightarrow> out1\<lparr>Reason := Some ''rejected''\<rparr>
            | m # _ \<Rightarrow> out1\<lparr>Reason := Some m\<rparr>))"

definition PreToolUseOutput_Default :: "PreToolUseOutput \<Rightarrow> PreToolUseOutput" where
  "PreToolUseOutput_Default out =
     (let out1 = (if Continue out = None then out\<lparr>Continue := Some True\<rparr> else out)
      in PreToolUseOutput_Approve out1 True [''''])"

definition PostToolUseOutput_Default :: "PostToolUseOutput \<Rightarrow> PostToolUseOutput" where
  "PostToolUseOutput_Default out =
     (if Continue out = None then out\<lparr>Continue := Some True\<rparr> else out)"

definition PostToolUseOutput_Block :: "PostToolUseOutput \<Rightarrow> string \<Rightarrow> PostToolUseOutput" where
  "PostToolUseOutput_Block out msg = out\<lparr>Decision := Some ''block'', Reason := Some msg\<rparr>"

definition StopOutput_Default :: "StopOutput \<Rightarrow> StopOutput" where
  "StopOutput_Default out =
     (if Continue out = None then out\<lparr>Continue := Some True\<rparr> else out)"

definition StopOutput_NotAllowed :: "StopOutput \<Rightarrow> string \<Rightarrow> StopOutput" where
  "StopOutput_NotAllowed out msg = out\<lparr>Decision := Some ''block'', Reason := Some msg\<rparr>"

subsection \<open>Verdicts built with the methods of their type\<close>

text \<open>
  A verdict of one of the three types with methods of their own is built from the zero
  value by a sequence of method calls. A call of a method that the type does not have
  does not compile: \<open>None\<close>.
\<close>

datatype output_type = Type_PreToolUseOutput | Type_PostToolUseOutput | Type_StopOutput

datatype method_call =
    Call_Default
  | Call_Approve bool "string list"
  | Call_Block string
  | Call_NotAllowed string
  | Call_Stop string
  | Call_IgnoreStdout

fun call_method :: "output_type \<Rightarrow> method_call \<Rightarrow> DecisionOutput \<Rightarrow> DecisionOutput option" where
  "call_method Type_PreToolUseOutput Call_Default out = Some (PreToolUseOutput_Default out)"
| "call_method Type_PreToolUseOutput (Call_Approve approved msg) out =
     Some (PreToolUseOutput_Approve out approved msg)"
| "call_method Type_PostToolUseOutput Call_Default out = Some (PostToolUseOutput_Default out)"
| "call_method Type_PostToolUseOutput (Call_Block msg) out =
     Some (PostToolUseOutput_Block out msg)"
| "call_method Type_StopOutput Call_Default out = Some (StopOutput_Default out)"
| "call_method Type_StopOutput (Call_NotAllowed msg) out =
     Some (StopOutput_NotAllowed out msg)"
| "call_method _ (Call_Stop userMessage) out = Some (BaseHookOutput_Stop out userMessage)"
| "call_method _ Call_IgnoreStdout out = Some (BaseHookOutput_IgnoreStdout out)"
| "call_method _ _ _ = None"

fun construct :: "output_type \<Rightarrow> method_call list \<Rightarrow> DecisionOutput \<Rightarrow> DecisionOutput option" where
  "construct ty [] out = Some out"
| "construct ty (c # cs) out =
     (case call_method ty c out of None \<Rightarrow> None | Some out1 \<Rightarrow> construct ty cs out1)"

text \<open>
  The invariant of these methods: a verdict whose decision is \<^verbatim>\<open>block\<close> has its reason
  set.
\<close>

definition block_has_reason :: "DecisionOutput \<Rightarrow> bool" where
  "block_has_reason out = (if Decision out = Some ''block'' then Reason out \<noteq> None else True)"

section \<open>types/types.go: the result and the exit\<close>

record Result =
  Code :: int
  Error :: string
  Data :: string

definition NewSuccess :: "string \<Rightarrow> Result" where
  "NewSuccess data = \<lparr>Code = ExitCodeSuccess, Error = '''', Data = data\<rparr>"

definition NewError :: "string \<Rightarrow> Result" where
  "NewError msg = \<lparr>Code = ExitCodeError, Error = msg, Data = ''''\<rparr>"

definition IsSuccess :: "Result \<Rightarrow> bool" where
  "IsSuccess r = (Code r = ExitCodeSuccess)"

text \<open>
  What the process does to the outside, in order: \<open>Fprintf w format operands\<close> is the
  call \<^verbatim>\<open>fmt.Fprintf(w, format, operands...)\<close>, which writes to \<open>w\<close> and to no other
  stream; \<open>PrintHelp\<close> is the call of \<^verbatim>\<open>printHelp\<close>, which prints the usage on standard
  output; \<open>os_Exit code\<close> is the call \<^verbatim>\<open>os.Exit(code)\<close> and \<open>GoPanic\<close> an unrecovered
  panic: these two end the process.
\<close>

datatype stream = os_Stdout | os_Stderr

datatype effect =
    Fprintf stream string "string list"
  | PrintHelp
  | os_Exit int
  | GoPanic

definition ExitWithMessage :: "Result \<Rightarrow> effect list" where
  "ExitWithMessage r =
     (if IsSuccess r then
        (if length (Data r) > 0 then [Fprintf os_Stderr (Data r) []] else [])
      else
        (if length (Error r) > 0 then [Fprintf os_Stderr (Error r) []] else []))
     @ [os_Exit (Code r)]"

section \<open>types/plugin.go: the plugin interface\<close>

record Matcher =
  PreToolUse :: string
  PostToolUse :: string

record PluginMetadata =
  Description :: string
  Matcher :: Matcher

record PluginInfo =
  Name :: string
  Path :: string
  Description :: string

text \<open>
  A call of a hook method returns a pointer to its output (\<open>None\<close> is nil) and an error
  (\<open>None\<close> is nil, \<open>Some text\<close> an error whose \<^verbatim>\<open>Error()\<close> is the text), or panics. A
  plugin is the record of its methods, each a function of its argument (the state a
  plugin may keep between calls is not modelled); \<^verbatim>\<open>Initialize\<close> and \<^verbatim>\<open>Cleanup\<close> are the
  errors they return.
\<close>

datatype 'a returned = Panics | Returns "'a option" "string option"

record IPlugin =
  Initialize :: "string option"
  Cleanup :: "string option"
  GetMetadata :: PluginMetadata
  PreToolUse :: "ToolInput \<Rightarrow> PreToolUseOutput returned"
  PostToolUse :: "PostToolUseInput \<Rightarrow> PostToolUseOutput returned"
  Notification :: "NotificationInput \<Rightarrow> BaseHookOutput returned"
  Stop :: "StopInput \<Rightarrow> StopOutput returned"
  SubagentStop :: "SubagentStopInput \<Rightarrow> DecisionOutput returned"

text \<open>
  A plugin that embeds \<^verbatim>\<open>UnimplementedPlugin\<close> and adds only \<^verbatim>\<open>GetMetadata\<close>: every hook
  method is \<^verbatim>\<open>panic("implement me")\<close>.
\<close>

definition UnimplementedPlugin :: "PluginMetadata \<Rightarrow> IPlugin" where
  "UnimplementedPlugin metadata =
     \<lparr>Initialize = None, Cleanup = None, GetMetadata = metadata,
      PreToolUse = (\<lambda>arg. Panics), PostToolUse = (\<lambda>arg. Panics),
      Notification = (\<lambda>arg. Panics), Stop = (\<lambda>arg. Panics),
      SubagentStop = (\<lambda>arg. Panics)\<rparr>"

section \<open>types/plugin.go: the plugin manager\<close>

text \<open>
  The two maps of the manager are partial functions. The mutex is left out: the program
  calls the manager from one goroutine.
\<close>

record PluginManager =
  plugins :: "string \<rightharpoonup> IPlugin"
  pluginPaths :: "string \<rightharpoonup> string"
  pluginDir :: string

definition NewPluginManager :: "string \<Rightarrow> PluginManager" where
  "NewPluginManager dir = \<lparr>plugins = Map.empty, pluginPaths = Map.empty, pluginDir = dir\<rparr>"

text \<open>
  A method of the manager returns the manager as it leaves it, the names of the plugins
  whose \<^verbatim>\<open>Cleanup\<close> it called, in order, and its error.
\<close>

record manager_call =
  manager :: PluginManager
  cleanups :: "string list"
  error :: "string option"

definition UnloadPlugin :: "string \<Rightarrow> PluginManager \<Rightarrow> manager_call" where
  "UnloadPlugin name pm =
     (case plugins pm name of
        None \<Rightarrow>
          \<lparr>manager = pm, cleanups = [], error = Some (''plugin '' @ name @ '' not found'')\<rparr>
      | Some pluginInstance \<Rightarrow>
          (case Cleanup pluginInstance of
             Some err \<Rightarrow>
               \<lparr>manager = pm, cleanups = [name],
                error = Some (''failed to cleanup plugin '' @ name @ '': '' @ err)\<rparr>
           | None \<Rightarrow>
               \<lparr>manager = pm\<lparr>plugins := (plugins pm)(name := None),
                                pluginPaths := (pluginPaths pm)(name := None)\<rparr>,
                cleanups = [name], error = None\<rparr>))"

fun strings_Join :: "string list \<Rightarrow> string \<Rightarrow> string" where
  "strings_Join [] sep = ''''"
| "strings_Join [x] sep = x"
| "strings_Join (x # xs) sep = x @ sep @ strings_Join xs sep"

text \<open>
  \<^verbatim>\<open>for name, pluginInstance := range pm.plugins\<close> visits the keys of the map in an order
  that Go leaves open: the order is the argument \<open>names\<close>, and a name that is not a
  key of the map is passed over. The loop of \<^verbatim>\<open>Shutdown\<close> returns the names whose
  \<^verbatim>\<open>Cleanup\<close> it called and the slice \<^verbatim>\<open>errors\<close>.
\<close>

fun Shutdown_range ::
  "(string \<rightharpoonup> IPlugin) \<Rightarrow> string list \<Rightarrow> string list \<Rightarrow> string list \<times> string list" where
  "Shutdown_range m [] errors = ([], errors)"
| "Shutdown_range m (name # names) errors =
     (case m name of
        None \<Rightarrow> Shutdown_range m names errors
      | Some pluginInstance \<Rightarrow>
          (let errors1 =
                 (case Cleanup pluginInstance of
                    Some err \<Rightarrow> errors @ [''failed to cleanup plugin '' @ name @ '': '' @ err]
                  | None \<Rightarrow> errors);
               (called, errors2) = Shutdown_range m names errors1
           in (name # called, errors2)))"

definition Shutdown :: "string list \<Rightarrow> PluginManager \<Rightarrow> manager_call" where
  "Shutdown names pm =
     (let (called, errors) = Shutdown_range (plugins pm) names [];
          pm1 = pm\<lparr>plugins := Map.empty, pluginPaths := Map.empty\<rparr>
      in \<lparr>manager = pm1, cleanups = called,
          error = (if length errors > 0
                   then Some (''shutdown errors: '' @ strings_Join errors ''; '')
                   else None)\<rparr>)"

section \<open>main.go: encoding and decoding\<close>

text \<open>
  The calls into \<^verbatim>\<open>encoding/json\<close> on the side of the input are parameters of the model,
  since what they return is decided by the library alone: decoding the bytes of standard
  input into a \<^verbatim>\<open>map[string]any\<close>, encoding that map again, decoding the result into the
  input struct of a hook, and the bytes written for a document. \<open>Inl\<close> carries the text
  of the error. The Go release the program is built with is a parameter too (the
  repository has no \<^verbatim>\<open>go.mod\<close> and its README asks for Go 1.21 or later):
  \<open>honours_omitzero\<close> says whether its \<^verbatim>\<open>encoding/json\<close> knows the tag option
  \<^verbatim>\<open>omitzero\<close>, as Go 1.24 and later do; an earlier release ignores the option.
\<close>

record encoding_json =
  Unmarshal_map :: "string \<Rightarrow> string + (string \<rightharpoonup> json)"
  Marshal_map :: "(string \<rightharpoonup> json) \<Rightarrow> string + string"
  Unmarshal_ToolInput :: "string \<Rightarrow> string + ToolInput"
  Unmarshal_PostToolUseInput :: "string \<Rightarrow> string + PostToolUseInput"
  Unmarshal_NotificationInput :: "string \<Rightarrow> string + NotificationInput"
  Unmarshal_StopInput :: "string \<Rightarrow> string + StopInput"
  Unmarshal_SubagentStopInput :: "string \<Rightarrow> string + SubagentStopInput"
  encoded :: "json \<Rightarrow> string"
  honours_omitzero :: bool

subsection \<open>Strings\<close>

text \<open>
  \<^verbatim>\<open>json.Marshal\<close> writes a string rune by rune, as \<^verbatim>\<open>utf8.DecodeRuneInString\<close> reads
  them: a byte below \<^verbatim>\<open>0x80\<close> is a rune of size 1; a leading byte asks for a size of 2, 3
  or 4 and a range for the second byte, the later bytes being in \<^verbatim>\<open>0x80..0xBF\<close>; when the
  bytes are too few or out of range (or the first byte leads nothing) the result is
  \<^verbatim>\<open>RuneError\<close> of size 1 (\<open>None\<close>). For such a byte the encoder writes the escape of U+FFFD and
  goes on with the next byte; every other rune it writes so that \<^verbatim>\<open>json.Unmarshal\<close> reads
  the same bytes back. \<open>read_back\<close> is the string that \<^verbatim>\<open>json.Unmarshal\<close> reads from the
  encoding of a string (\<open>pending\<close> counts the bytes of the current rune still to copy):
  each byte that is not part of a valid encoding has become U+FFFD, the bytes
  \<^verbatim>\<open>EF BF BD\<close>. A document holds its strings as they are read back.
\<close>

definition byte :: "char \<Rightarrow> nat" where
  "byte c = of_char c"

definition continuation :: "nat \<Rightarrow> nat \<Rightarrow> char \<Rightarrow> bool" where
  "continuation lo hi c = (lo \<le> byte c \<and> byte c \<le> hi)"

fun accept :: "nat \<Rightarrow> nat \<Rightarrow> nat \<Rightarrow> string \<Rightarrow> nat option" where
  "accept sz lo hi (s1 # s2 # s3 # rest) =
     (if \<not> continuation lo hi s1 then None
      else if sz \<le> 2 then Some 2
      else if \<not> continuation 0x80 0xBF s2 then None
      else if sz \<le> 3 then Some 3
      else if \<not> continuation 0x80 0xBF s3 then None
      else Some 4)"
| "accept sz lo hi [s1, s2] =
     (if sz > 3 then None
      else if \<not> continuation lo hi s1 then None
      else if sz \<le> 2 then Some 2
      else if \<not> continuation 0x80 0xBF s2 then None
      else Some 3)"
| "accept sz lo hi [s1] =
     (if sz > 2 then None
      else if \<not> continuation lo hi s1 then None
      else Some 2)"
| "accept sz lo hi [] = None"

definition DecodeRune_size :: "char \<Rightarrow> string \<Rightarrow> nat option" where
  "DecodeRune_size s0 rest =
     (let b = byte s0
      in if b < 0x80 then Some 1
         else if 0xC2 \<le> b \<and> b \<le> 0xDF then accept 2 0x80 0xBF rest
         else if b = 0xE0 then accept 3 0xA0 0xBF rest
         else if 0xE1 \<le> b \<and> b \<le> 0xEC then accept 3 0x80 0xBF rest
         else if b = 0xED then accept 3 0x80 0x9F rest
         else if 0xEE \<le> b \<and> b \<le> 0xEF then accept 3 0x80 0xBF rest
         else if b = 0xF0 then accept 4 0x90 0xBF rest
         else if 0xF1 \<le> b \<and> b \<le> 0xF3 then accept 4 0x80 0xBF rest
         else if b = 0xF4 then accept 4 0x80 0x8F rest
         else None)"

fun read_back :: "nat \<Rightarrow> string \<Rightarrow> string" where
  "read_back pending [] = []"
| "read_back (Suc pending) (c # rest) = c # read_back pending rest"
| "read_back 0 (c # rest) =
     (case DecodeRune_size c rest of
        None \<Rightarrow> [CHR 0xEF, CHR 0xBF, CHR 0xBD] @ read_back 0 rest
      | Some n \<Rightarrow> c # read_back (n - 1) rest)"

text \<open>\<^verbatim>\<open>utf8.ValidString\<close>: no rune of the string is a \<^verbatim>\<open>RuneError\<close> of size 1.\<close>

fun valid_from :: "nat \<Rightarrow> string \<Rightarrow> bool" where
  "valid_from pending [] = True"
| "valid_from (Suc pending) (c # rest) = valid_from pending rest"
| "valid_from 0 (c # rest) =
     (case DecodeRune_size c rest of
        None \<Rightarrow> False
      | Some n \<Rightarrow> valid_from (n - 1) rest)"

definition utf8_ValidString :: "string \<Rightarrow> bool" where
  "utf8_ValidString s = valid_from 0 s"

subsection \<open>Outputs\<close>

text \<open>
  The value that \<^verbatim>\<open>processPluginResult\<close> receives in its parameter \<^verbatim>\<open>result any\<close>: the
  nil interface, or a pointer of one of the output types, which may be a nil pointer.
  \<^verbatim>\<open>*PreToolUseOutput\<close>, \<^verbatim>\<open>*PostToolUseOutput\<close>, \<^verbatim>\<open>*StopOutput\<close> and
  \<^verbatim>\<open>*DecisionOutput\<close> point to the same struct with the same tags and are encoded alike.
\<close>

datatype result_any =
    nil_interface
  | ptr_DecisionOutput "DecisionOutput option"
  | ptr_BaseHookOutput "BaseHookOutput option"

text \<open>
  \<^verbatim>\<open>json.Marshal\<close> of a struct goes through its fields, those of an embedded struct in
  its place, each with the name and the option of its tag. With \<^verbatim>\<open>omitempty\<close> a field
  is left out when it is false, the empty string or a nil pointer. With \<^verbatim>\<open>omitzero\<close> a
  field is left out when it is the zero value, here too false, the empty string or a
  nil pointer, by a library that knows the option; a library that does not encodes the
  field whatever it holds. A nil pointer that is encoded is \<^verbatim>\<open>null\<close>; a pointer to a
  value is encoded as the value. The outputs are encoded without error.
\<close>

datatype tag_option = omitempty | omitzero

datatype field_value =
    bool_field bool
  | string_field string
  | bool_pointer "bool option"
  | string_pointer "string option"

fun isEmptyValue :: "field_value \<Rightarrow> bool" where
  "isEmptyValue (bool_field b) = (\<not> b)"
| "isEmptyValue (string_field s) = (length s = 0)"
| "isEmptyValue (bool_pointer p) = (p = None)"
| "isEmptyValue (string_pointer p) = (p = None)"

fun IsZero :: "field_value \<Rightarrow> bool" where
  "IsZero (bool_field b) = (\<not> b)"
| "IsZero (string_field s) = (s = '''')"
| "IsZero (bool_pointer p) = (p = None)"
| "IsZero (string_pointer p) = (p = None)"

fun encode_value :: "field_value \<Rightarrow> json" where
  "encode_value (bool_field b) = JBool b"
| "encode_value (string_field s) = JString (read_back 0 s)"
| "encode_value (bool_pointer None) = JNull"
| "encode_value (bool_pointer (Some b)) = JBool b"
| "encode_value (string_pointer None) = JNull"
| "encode_value (string_pointer (Some s)) = JString (read_back 0 s)"

fun encode_field :: "encoding_json \<Rightarrow> string \<times> tag_option \<times> field_value \<Rightarrow> (string \<times> json) list" where
  "encode_field lib (name, omitempty, v) =
     (if isEmptyValue v then [] else [(name, encode_value v)])"
| "encode_field lib (name, omitzero, v) =
     (if honours_omitzero lib \<and> IsZero v then [] else [(name, encode_value v)])"

text \<open>The fields of the two structs, with their tags as \<^verbatim>\<open>types.go\<close> declares them.\<close>

definition BaseHookOutput_fields ::
  "'a BaseHookOutput_scheme \<Rightarrow> (string \<times> tag_option \<times> field_value) list" where
  "BaseHookOutput_fields v =
     [(''continue'', omitempty, bool_pointer (Continue v)),
      (''stopReason'', omitempty, string_field (StopReason v)),
      (''suppressOutput'', omitempty, bool_field (SuppressOutput v))]"

definition DecisionOutput_fields ::
  "DecisionOutput \<Rightarrow> (string \<times> tag_option \<times> field_value) list" where
  "DecisionOutput_fields v =
     BaseHookOutput_fields v @
     [(''decision'', omitzero, string_pointer (Decision v)),
      (''reason'', omitzero, string_pointer (Reason v))]"

text \<open>
  The bytes that \<^verbatim>\<open>json.Marshal\<close> returns are represented by the document they encode,
  and \<^verbatim>\<open>json.Unmarshal\<close> of these bytes reads that document.
\<close>

fun json_Marshal :: "encoding_json \<Rightarrow> result_any \<Rightarrow> json" where
  "json_Marshal lib nil_interface = JNull"
| "json_Marshal lib (ptr_DecisionOutput None) = JNull"
| "json_Marshal lib (ptr_DecisionOutput (Some v)) =
     JObject (concat (map (encode_field lib) (DecisionOutput_fields v)))"
| "json_Marshal lib (ptr_BaseHookOutput None) = JNull"
| "json_Marshal lib (ptr_BaseHookOutput (Some v)) =
     JObject (concat (map (encode_field lib) (BaseHookOutput_fields v)))"

text \<open>
  \<^verbatim>\<open>json.Unmarshal(data, &m)\<close> for \<^verbatim>\<open>var m map[string]any\<close>: an object fills the map, a
  later member replacing an earlier one of the same key; \<^verbatim>\<open>null\<close> leaves the map nil
  with no error; any other document is an error (\<open>None\<close>).
\<close>

fun json_Unmarshal_map :: "json \<Rightarrow> (string \<rightharpoonup> json) option" where
  "json_Unmarshal_map (JObject members) = Some (map_of (rev members))"
| "json_Unmarshal_map JNull = Some Map.empty"
| "json_Unmarshal_map _ = None"

section \<open>main.go: one plugin\<close>

definition checkBlockDecision :: "json \<Rightarrow> Result option" where
  "checkBlockDecision data =
     (case json_Unmarshal_map data of
        None \<Rightarrow> None
      | Some m \<Rightarrow>
          (let (decision, ok) = assert_string (index m ''decision'')
           in if \<not> ok \<or> decision \<noteq> ''block'' then None
              else
                (let (reason, ok1) = assert_string (index m ''reason'')
                 in Some \<lparr>Code = ExitCodeBlockingError, Error = reason @ ''\<newline>'',
                          Data = ''''\<rparr>)))"

definition processPluginResult :: "encoding_json \<Rightarrow> result_any \<Rightarrow> string option \<Rightarrow> Result" where
  "processPluginResult lib result err =
     (case err of
        Some text \<Rightarrow> NewError text
      | None \<Rightarrow>
          (case result of
             nil_interface \<Rightarrow> NewSuccess ''''
           | _ \<Rightarrow>
               (let data = json_Marshal lib result
                in case checkBlockDecision data of
                     Some blockResult \<Rightarrow> blockResult
                   | None \<Rightarrow> NewSuccess (encoded lib data))))"

text \<open>
  \<^verbatim>\<open>withDefault\<close> is generic in the output type: its \<^verbatim>\<open>Default\<close> method and the zero value
  that \<^verbatim>\<open>new(T)\<close> allocates are arguments here.
\<close>

definition withDefault :: "('t \<Rightarrow> 't) \<Rightarrow> 't \<Rightarrow> 't option \<Rightarrow> 't option" where
  "withDefault Default zero input =
     (case input of Some v \<Rightarrow> Some v | None \<Rightarrow> Some (Default zero))"

text \<open>
  A handler returns its result without calling the plugin (\<open>Skipped\<close>), or after the
  plugin's method returned (\<open>Called\<close>); or the method panics (\<open>Panicked\<close>).
\<close>

datatype handled = Skipped Result | Called Result | Panicked

definition handlePreToolUse :: "encoding_json \<Rightarrow> string \<Rightarrow> IPlugin \<Rightarrow> handled" where
  "handlePreToolUse lib inputData plugin =
     (case Unmarshal_ToolInput lib inputData of
        Inl err \<Rightarrow> Skipped (NewError (''invalid PreToolUse input: '' @ err))
      | Inr input \<Rightarrow>
          (case PreToolUse plugin input of
             Panics \<Rightarrow> Panicked
           | Returns result err \<Rightarrow>
               Called (processPluginResult lib
                 (ptr_DecisionOutput
                   (withDefault PreToolUseOutput_Default zero_DecisionOutput result)) err)))"

definition handlePostToolUse :: "encoding_json \<Rightarrow> string \<Rightarrow> IPlugin \<Rightarrow> handled" where
  "handlePostToolUse lib inputData plugin =
     (case Unmarshal_PostToolUseInput lib inputData of
        Inl err \<Rightarrow> Skipped (NewError (''invalid PostToolUse input: '' @ err))
      | Inr input \<Rightarrow>
          (case PostToolUse plugin input of
             Panics \<Rightarrow> Panicked
           | Returns result err \<Rightarrow>
               Called (processPluginResult lib
                 (ptr_DecisionOutput
                   (withDefault PostToolUseOutput_Default zero_DecisionOutput result)) err)))"

definition handleNotification :: "encoding_json \<Rightarrow> string \<Rightarrow> IPlugin \<Rightarrow> handled" where
  "handleNotification lib inputData plugin =
     (case Unmarshal_NotificationInput lib inputData of
        Inl err \<Rightarrow> Skipped (NewError (''invalid Notification input: '' @ err))
      | Inr input \<Rightarrow>
          (case Notification plugin input of
             Panics \<Rightarrow> Panicked
           | Returns result err \<Rightarrow>
               Called (processPluginResult lib (ptr_BaseHookOutput result) err)))"

definition handleStop :: "encoding_json \<Rightarrow> string \<Rightarrow> IPlugin \<Rightarrow> handled" where
  "handleStop lib inputData plugin =
     (case Unmarshal_StopInput lib inputData of
        Inl err \<Rightarrow> Skipped (NewError (''invalid Stop input: '' @ err))
      | Inr input \<Rightarrow>
          (case Stop plugin input of
             Panics \<Rightarrow> Panicked
           | Returns result err \<Rightarrow>
               Called (processPluginResult lib
                 (ptr_DecisionOutput
                   (withDefault StopOutput_Default zero_DecisionOutput result)) err)))"

definition handleSubagentStop :: "encoding_json \<Rightarrow> string \<Rightarrow> IPlugin \<Rightarrow> handled" where
  "handleSubagentStop lib inputData plugin =
     (case Unmarshal_SubagentStopInput lib inputData of
        Inl err \<Rightarrow> Skipped (NewError (''invalid SubagentStop input: '' @ err))
      | Inr input \<Rightarrow>
          (case SubagentStop plugin input of
             Panics \<Rightarrow> Panicked
           | Returns result err \<Rightarrow>
               Called (processPluginResult lib (ptr_DecisionOutput result) err)))"

definition hookHandlers :: "string \<rightharpoonup> (encoding_json \<Rightarrow> string \<Rightarrow> IPlugin \<Rightarrow> handled)" where
  "hookHandlers =
     [''PreToolUse'' \<mapsto> handlePreToolUse,
      ''PostToolUse'' \<mapsto> handlePostToolUse,
      ''Notification'' \<mapsto> handleNotification,
      ''Stop'' \<mapsto> handleStop,
      ''SubagentStop'' \<mapsto> handleSubagentStop]"

definition executePlugin :: "encoding_json \<Rightarrow> string \<Rightarrow> string \<Rightarrow> IPlugin \<Rightarrow> handled" where
  "executePlugin lib hookType inputData plugin =
     (case hookHandlers hookType of
        None \<Rightarrow> Skipped (NewError (''unknown hook type: '' @ hookType))
      | Some handler \<Rightarrow> handler lib inputData plugin)"

section \<open>main.go: the execute command\<close>

text \<open>
  Standard input is what \<^verbatim>\<open>io.ReadAll(os.Stdin)\<close> returns: the text of an error or the
  data.
\<close>

definition readStdin :: "string + string \<Rightarrow> string + string" where
  "readStdin stdin =
     (case stdin of
        Inl err \<Rightarrow> Inl (''failed to read stdin: '' @ err)
      | Inr data \<Rightarrow> Inr data)"

definition readAndParseInput ::
  "encoding_json \<Rightarrow> string + string \<Rightarrow> string + (string \<rightharpoonup> json)" where
  "readAndParseInput lib stdin =
     (case readStdin stdin of
        Inl err \<Rightarrow> Inl (''failed to read stdin: '' @ err)
      | Inr data \<Rightarrow>
          (case Unmarshal_map lib data of
             Inl err \<Rightarrow> Inl (''invalid JSON input: '' @ err)
           | Inr input \<Rightarrow> Inr input))"

definition extractHookType :: "(string \<rightharpoonup> json) \<Rightarrow> string + string" where
  "extractHookType input =
     (let (hookType, ok) = assert_string (index input ''hook_event_name'')
      in if \<not> ok then Inl ''missing or invalid hook_event_name'' else Inr hookType)"

text \<open>
  A function of \<^verbatim>\<open>main.go\<close> returns to its caller (\<open>Return\<close>, with its error), or the
  process ends inside it (\<open>Ended\<close>, with what the process did from there on). With it
  goes the list of the plugins whose hook method was called, by their position in the
  slice that \<^verbatim>\<open>pm.Plugins()\<close> returned (\<open>loaded\<close> below, since \<open>plugins\<close> is the field
  of the manager).
\<close>

datatype flow = Return "string option" | Ended "effect list"

text \<open>
  The loop over \<^verbatim>\<open>plugins\<close>, from position \<open>i\<close> on, with the value of \<^verbatim>\<open>lastResult\<close>,
  and the two statements after it.
\<close>

fun range_plugins ::
  "encoding_json \<Rightarrow> string \<Rightarrow> string \<Rightarrow> nat \<Rightarrow> IPlugin list \<Rightarrow> Result option
     \<Rightarrow> nat list \<times> flow" where
  "range_plugins lib hookType inputData i [] lastResult =
     (case lastResult of
        Some result \<Rightarrow> ([], Ended (ExitWithMessage result))
      | None \<Rightarrow> ([], Return None))"
| "range_plugins lib hookType inputData i (plugin # rest) lastResult =
     (case executePlugin lib hookType inputData plugin of
        Panicked \<Rightarrow> ([i], Ended [GoPanic])
      | Skipped result \<Rightarrow>
          (if \<not> IsSuccess result then ([], Ended (ExitWithMessage result))
           else range_plugins lib hookType inputData (Suc i) rest (Some result))
      | Called result \<Rightarrow>
          (if \<not> IsSuccess result then ([i], Ended (ExitWithMessage result))
           else
             (let (called, f) = range_plugins lib hookType inputData (Suc i) rest (Some result)
              in (i # called, f))))"

definition handleExecuteCommand ::
  "encoding_json \<Rightarrow> IPlugin list \<Rightarrow> string + string \<Rightarrow> nat list \<times> flow" where
  "handleExecuteCommand lib loaded stdin =
     (if length loaded = 0 then ([], Return (Some ''no plugins loaded''))
      else
        (case readAndParseInput lib stdin of
           Inl err \<Rightarrow> ([], Return (Some err))
         | Inr input \<Rightarrow>
             (case extractHookType input of
                Inl err \<Rightarrow> ([], Return (Some err))
              | Inr hookType \<Rightarrow>
                  (case Marshal_map lib input of
                     Inl err \<Rightarrow> ([], Return (Some (''failed to marshal input: '' @ err)))
                   | Inr inputData \<Rightarrow>
                       range_plugins lib hookType inputData 0 loaded None))))"

text \<open>
  What \<^verbatim>\<open>main\<close> does with the command \<^verbatim>\<open>execute\<close> once the plugins are loaded: an error
  that \<^verbatim>\<open>run\<close> returns is printed on standard error, followed by the help and
  \<^verbatim>\<open>os.Exit(types.ExitCodeError)\<close>; when \<^verbatim>\<open>run\<close> returns nil, \<^verbatim>\<open>main\<close> returns and the
  process exits with status 0.
\<close>

record execution =
  invoked :: "nat list"
  effects :: "effect list"

definition main_execute :: "encoding_json \<Rightarrow> IPlugin list \<Rightarrow> string + string \<Rightarrow> execution" where
  "main_execute lib loaded stdin =
     (let (called, f) = handleExecuteCommand lib loaded stdin
      in \<lparr>invoked = called,
          effects =
            (case f of
               Ended rest \<Rightarrow> rest
             | Return (Some err) \<Rightarrow>
                 [Fprintf os_Stderr ''error: %v\<newline>'' [err], PrintHelp,
                  os_Exit ExitCodeError]
             | Return None \<Rightarrow> [os_Exit 0])\<rparr>)"

section \<open>What a plugin's hook method returns for an event\<close>

text \<open>
  The call that the handler of a hook type makes on a plugin, seen from the plugin: the
  method is not called (the hook type has no handler, or the input does not decode), or
  it panics, or it returns an output pointer, as it is passed on in an \<^verbatim>\<open>any\<close>, and
  an error.
\<close>

datatype method_result = NotCalled | MethodPanics | MethodReturns result_any "string option"

definition hook_method :: "encoding_json \<Rightarrow> string \<Rightarrow> string \<Rightarrow> IPlugin \<Rightarrow> method_result" where
  "hook_method lib hookType inputData plugin =
     (if hookType = ''PreToolUse'' then
        (case Unmarshal_ToolInput lib inputData of
           Inl err \<Rightarrow> NotCalled
         | Inr input \<Rightarrow>
             (case PreToolUse plugin input of
                Panics \<Rightarrow> MethodPanics
              | Returns result err \<Rightarrow> MethodReturns (ptr_DecisionOutput result) err))
      else if hookType = ''PostToolUse'' then
        (case Unmarshal_PostToolUseInput lib inputData of
           Inl err \<Rightarrow> NotCalled
         | Inr input \<Rightarrow>
             (case PostToolUse plugin input of
                Panics \<Rightarrow> MethodPanics
              | Returns result err \<Rightarrow> MethodReturns (ptr_DecisionOutput result) err))
      else if hookType = ''Notification'' then
        (case Unmarshal_NotificationInput lib inputData of
           Inl err \<Rightarrow> NotCalled
         | Inr input \<Rightarrow>
             (case Notification plugin input of
                Panics \<Rightarrow> MethodPanics
              | Returns result err \<Rightarrow> MethodReturns (ptr_BaseHookOutput result) err))
      else if hookType = ''Stop'' then
        (case Unmarshal_StopInput lib inputData of
           Inl err \<Rightarrow> NotCalled
         | Inr input \<Rightarrow>
             (case Stop plugin input of
                Panics \<Rightarrow> MethodPanics
              | Returns result err \<Rightarrow> MethodReturns (ptr_DecisionOutput result) err))
      else if hookType = ''SubagentStop'' then
        (case Unmarshal_SubagentStopInput lib inputData of
           Inl err \<Rightarrow> NotCalled
         | Inr input \<Rightarrow>
             (case SubagentStop plugin input of
                Panics \<Rightarrow> MethodPanics
              | Returns result err \<Rightarrow> MethodReturns (ptr_DecisionOutput result) err))
      else NotCalled)"

section \<open>Example plugins, events and managers\<close>

text \<open>
  The concrete inputs of the examples below: plugins that embed \<^verbatim>\<open>UnimplementedPlugin\<close>
  and override one method, the \<^verbatim>\<open>PreToolUse\<close> event of the README that reads \<^verbatim>\<open>.env\<close>,
  events with a missing, mistyped and unknown \<^verbatim>\<open>hook_event_name\<close>, and a table of what
  \<^verbatim>\<open>encoding/json\<close> returns on these.
\<close>

definition example_metadata :: PluginMetadata where
  "example_metadata =
     \<lparr>PluginMetadata.Description = ''example'',
      Matcher = \<lparr>Matcher.PreToolUse = ''Read|Write|Edit|MultiEdit'', PostToolUse = ''''\<rparr>\<rparr>"

definition silent_plugin :: IPlugin where
  "silent_plugin =
     (UnimplementedPlugin example_metadata)\<lparr>PreToolUse := (\<lambda>arg. Returns None None)\<rparr>"

definition guard_plugin :: IPlugin where
  "guard_plugin =
     (UnimplementedPlugin example_metadata)
       \<lparr>PreToolUse :=
          (\<lambda>arg. if GetFilePath arg = ''.env''
                 then Returns
                        (Some (PreToolUseOutput_Approve zero_DecisionOutput False
                          [''Access to .env files is not allowed. File: '' @ GetFilePath arg]))
                        None
                 else Returns None None)\<rparr>"

definition failing_plugin :: IPlugin where
  "failing_plugin =
     (UnimplementedPlugin example_metadata)
       \<lparr>PreToolUse :=
          (\<lambda>arg. Returns (Some (PreToolUseOutput_Approve zero_DecisionOutput False [''no'']))
                         (Some ''plugin failed''))\<rparr>"

definition busy_plugin :: IPlugin where
  "busy_plugin = (UnimplementedPlugin example_metadata)\<lparr>Cleanup := Some ''device busy''\<rparr>"

definition example_manager :: PluginManager where
  "example_manager =
     \<lparr>plugins = [''env.so'' \<mapsto> UnimplementedPlugin example_metadata,
                 ''gocheck.so'' \<mapsto> busy_plugin],
      pluginPaths = [''env.so'' \<mapsto> ''/home/u/.claude/hooks/env.so'',
                     ''gocheck.so'' \<mapsto> ''/home/u/.claude/hooks/gocheck.so''],
      pluginDir = ''''\<rparr>"

definition example_stdin :: string where
  \<open>example_stdin =
     ''{"hook_event_name":"PreToolUse","tool_name":"Read","tool_input":{"file_path":".env"}}''\<close>

definition example_inputData :: string where
  \<open>example_inputData =
     ''{"hook_event_name":"PreToolUse","tool_input":{"file_path":".env"},"tool_name":"Read"}''\<close>

definition example_input :: "string \<rightharpoonup> json" where
  "example_input =
     [''hook_event_name'' \<mapsto> JString ''PreToolUse'',
      ''tool_name'' \<mapsto> JString ''Read'',
      ''tool_input'' \<mapsto> JObject [(''file_path'', JString ''.env'')]]"

definition example_ToolInput :: ToolInput where
  "example_ToolInput =
     \<lparr>SessionID = '''', TranscriptPath = '''', HookEventName = ''PreToolUse'',
      ToolName = ''Read'', ToolInput = [''file_path'' \<mapsto> JString ''.env'']\<rparr>"

definition unknown_stdin :: string where
  \<open>unknown_stdin = ''{"hook_event_name":"PreCompact"}''\<close>

definition unknown_input :: "string \<rightharpoonup> json" where
  "unknown_input = [''hook_event_name'' \<mapsto> JString ''PreCompact'']"

definition untyped_stdin :: string where
  \<open>untyped_stdin = ''{"hook_event_name":7}''\<close>

definition untyped_input :: "string \<rightharpoonup> json" where
  "untyped_input = [''hook_event_name'' \<mapsto> JNumber 7 0]"

definition approve_document :: json where
  "approve_document =
     JObject [(''continue'', JBool True), (''decision'', JString ''approve''),
              (''reason'', JString '''')]"

definition example_json :: encoding_json where
  \<open>example_json =
     \<lparr>Unmarshal_map =
        (\<lambda>data. if data = example_stdin then Inr example_input
                else if data = unknown_stdin then Inr unknown_input
                else if data = untyped_stdin then Inr untyped_input
                else if data = ''{}'' then Inr Map.empty
                else Inl ''unexpected end of JSON input''),
      Marshal_map =
        (\<lambda>input. if input ''hook_event_name'' = Some (JString ''PreToolUse'')
                 then Inr example_inputData
                 else if input ''hook_event_name'' = Some (JString ''PreCompact'')
                 then Inr unknown_stdin
                 else Inr ''{}''),
      Unmarshal_ToolInput =
        (\<lambda>data. if data = example_inputData then Inr example_ToolInput
                else Inl ''unexpected end of JSON input''),
      Unmarshal_PostToolUseInput = (\<lambda>data. Inl ''unexpected end of JSON input''),
      Unmarshal_NotificationInput = (\<lambda>data. Inl ''unexpected end of JSON input''),
      Unmarshal_StopInput = (\<lambda>data. Inl ''unexpected end of JSON input''),
      Unmarshal_SubagentStopInput = (\<lambda>data. Inl ''unexpected end of JSON input''),
      encoded =
        (\<lambda>document. if document = approve_document
                    then ''{"continue":true,"decision":"approve","reason":""}''
                    else ''null''),
      honours_omitzero = True\<rparr>\<close>


text \<open>A plugin whose reason is the one byte \<^verbatim>\<open>0xFF\<close>, which is not valid UTF-8.\<close>

definition garbled_plugin :: IPlugin where
  "garbled_plugin =
     (UnimplementedPlugin example_metadata)
       \<lparr>PreToolUse :=
          (\<lambda>arg. Returns (Some (PreToolUseOutput_Approve zero_DecisionOutput False [[CHR 0xFF]]))
                         None)\<rparr>"

section \<open>Properties of types/types.go\<close>

text \<open>
  C10. The file-path accessor has no failing branch: the map lookup and the two-result
  type assertion never panic. When the tool-arguments map has no key \<^verbatim>\<open>file_path\<close>, or
  has a value there that is not a string, the accessor returns the empty string; when
  the value is a string it returns exactly that string.
\<close>

theorem GetFilePath_cases:
  "(ToolInput t ''file_path'' = None \<longrightarrow> GetFilePath t = '''') \<and>
   (\<forall>v. ToolInput t ''file_path'' = Some v \<longrightarrow> (\<forall>s. v \<noteq> JString s) \<longrightarrow> GetFilePath t = '''') \<and>
   (\<forall>s. ToolInput t ''file_path'' = Some (JString s) \<longrightarrow> GetFilePath t = s)"
proof (intro conjI allI impI)
  assume "ToolInput t ''file_path'' = None"
  then show "GetFilePath t = ''''"
    by (simp add: GetFilePath_def index_def)
next
  fix v
  assume "ToolInput t ''file_path'' = Some v" and "\<forall>s. v \<noteq> JString s"
  then show "GetFilePath t = ''''"
    by (cases v) (simp_all add: GetFilePath_def index_def)
next
  fix s
  assume "ToolInput t ''file_path'' = Some (JString s)"
  then show "GetFilePath t = s"
    by (simp add: GetFilePath_def index_def)
qed

theorem GetFilePath_cases_witness:
  "ToolInput \<lparr>SessionID = ''s1'', TranscriptPath = ''/tmp/t.jsonl'',
      HookEventName = ''PreToolUse'', ToolName = ''Bash'',
      ToolInput = [''command'' \<mapsto> JString ''ls'']\<rparr> ''file_path'' = None \<and>
   GetFilePath \<lparr>SessionID = ''s1'', TranscriptPath = ''/tmp/t.jsonl'',
      HookEventName = ''PreToolUse'', ToolName = ''Bash'',
      ToolInput = [''command'' \<mapsto> JString ''ls'']\<rparr> = '''' \<and>
   GetFilePath \<lparr>SessionID = ''s1'', TranscriptPath = ''/tmp/t.jsonl'',
      HookEventName = ''PreToolUse'', ToolName = ''Read'',
      ToolInput = [''file_path'' \<mapsto> JBool True]\<rparr> = '''' \<and>
   GetFilePath \<lparr>SessionID = ''s1'', TranscriptPath = ''/tmp/t.jsonl'',
      HookEventName = ''PostToolUse'', ToolName = ''Edit'',
      ToolInput = [''file_path'' \<mapsto> JString ''main.go''],
      ToolResponse = Map.empty\<rparr> = ''main.go''"
  using
    GetFilePath_cases [of "\<lparr>SessionID = ''s1'', TranscriptPath = ''/tmp/t.jsonl'',
      HookEventName = ''PreToolUse'', ToolName = ''Bash'',
      ToolInput = [''command'' \<mapsto> JString ''ls'']\<rparr>"]
    GetFilePath_cases [of "\<lparr>SessionID = ''s1'', TranscriptPath = ''/tmp/t.jsonl'',
      HookEventName = ''PreToolUse'', ToolName = ''Read'',
      ToolInput = [''file_path'' \<mapsto> JBool True]\<rparr>"]
    GetFilePath_cases [of "\<lparr>SessionID = ''s1'', TranscriptPath = ''/tmp/t.jsonl'',
      HookEventName = ''PostToolUse'', ToolName = ''Edit'',
      ToolInput = [''file_path'' \<mapsto> JString ''main.go''],
      ToolResponse = Map.empty\<rparr>"]
  by simp

text \<open>Every method keeps the invariant \<open>block_has_reason\<close>.\<close>

lemma call_method_keeps_reason:
  assumes "block_has_reason out" and "call_method ty c out = Some out1"
  shows "block_has_reason out1"
proof (cases c)
  case Call_Default
  with assms show ?thesis
    by (cases ty)
      (auto simp: block_has_reason_def PreToolUseOutput_Default_def Let_def
        PreToolUseOutput_Approve_def PostToolUseOutput_Default_def StopOutput_Default_def
        split: if_splits)
next
  case (Call_Approve approved msg)
  with assms show ?thesis
    by (cases ty)
      (auto simp: block_has_reason_def PreToolUseOutput_Approve_def Let_def
        split: if_splits list.splits)
next
  case (Call_Block msg)
  with assms show ?thesis
    by (cases ty) (auto simp: block_has_reason_def PostToolUseOutput_Block_def)
next
  case (Call_NotAllowed msg)
  with assms show ?thesis
    by (cases ty) (auto simp: block_has_reason_def StopOutput_NotAllowed_def)
next
  case (Call_Stop userMessage)
  with assms show ?thesis
    by (cases ty)
      (auto simp: block_has_reason_def BaseHookOutput_Stop_def Let_def split: if_splits)
next
  case Call_IgnoreStdout
  with assms show ?thesis
    by (cases ty) (auto simp: block_has_reason_def BaseHookOutput_IgnoreStdout_def)
qed

lemma construct_keeps_reason:
  "block_has_reason out \<Longrightarrow> construct ty cs out = Some v \<Longrightarrow> block_has_reason v"
proof (induction cs arbitrary: out)
  case Nil
  then show ?case by simp
next
  case (Cons c cs)
  then show ?case
    by (auto split: option.splits dest: call_method_keeps_reason)
qed

text \<open>
  C9, as the code has it. For every verdict of type \<^verbatim>\<open>PreToolUseOutput\<close>,
  \<^verbatim>\<open>PostToolUseOutput\<close> or \<^verbatim>\<open>StopOutput\<close> built from the zero value with the methods of
  its type, a decision \<^verbatim>\<open>block\<close> implies that the reason is set (not nil); it may be
  the empty string. \<^verbatim>\<open>Approve(false)\<close> with no message stores the fallback
  \<^verbatim>\<open>rejected\<close>; a message that is passed, empty or not, is stored as it is by
  \<^verbatim>\<open>Approve\<close>, \<^verbatim>\<open>Block\<close> and \<^verbatim>\<open>NotAllowed\<close>.
\<close>

theorem block_implies_reason_set:
  "(construct ty cs zero_DecisionOutput = Some v \<and> Decision v = Some ''block''
      \<longrightarrow> Reason v \<noteq> None) \<and>
   Reason (PreToolUseOutput_Approve out False []) = Some ''rejected'' \<and>
   Reason (PreToolUseOutput_Approve out False (m # ms)) = Some m \<and>
   Reason (PostToolUseOutput_Block out m) = Some m \<and>
   Reason (StopOutput_NotAllowed out m) = Some m"
proof -
  have zero: "block_has_reason zero_DecisionOutput"
    by (simp add: block_has_reason_def zero_DecisionOutput_def)
  have "Reason v \<noteq> None"
    if "construct ty cs zero_DecisionOutput = Some v" and "Decision v = Some ''block''"
    using construct_keeps_reason [OF zero that(1)] that(2)
    by (simp add: block_has_reason_def)
  then show ?thesis
    by (simp add: PreToolUseOutput_Approve_def PostToolUseOutput_Block_def
        StopOutput_NotAllowed_def Let_def)
qed

theorem block_implies_reason_set_witness:
  "construct Type_PreToolUseOutput [Call_Approve False []] zero_DecisionOutput =
     Some \<lparr>Continue = None, StopReason = '''', SuppressOutput = False,
       Decision = Some ''block'', Reason = Some ''rejected''\<rparr> \<and>
   Reason \<lparr>Continue = None, StopReason = '''', SuppressOutput = False,
       Decision = Some ''block'', Reason = Some ''rejected''\<rparr> \<noteq> None"
proof -
  have built:
    "construct Type_PreToolUseOutput [Call_Approve False []] zero_DecisionOutput =
       Some \<lparr>Continue = None, StopReason = '''', SuppressOutput = False,
         Decision = Some ''block'', Reason = Some ''rejected''\<rparr>"
    by (simp add: PreToolUseOutput_Approve_def zero_DecisionOutput_def Let_def)
  have blocked: "Decision \<lparr>Continue = None, StopReason = '''', SuppressOutput = False,
       Decision = Some ''block'', Reason = Some ''rejected''\<rparr> = Some ''block''"
    by simp
  from block_implies_reason_set
      [of Type_PreToolUseOutput "[Call_Approve False []]"
        "\<lparr>Continue = None, StopReason = '''', SuppressOutput = False,
          Decision = Some ''block'', Reason = Some ''rejected''\<rparr>"]
  have "construct Type_PreToolUseOutput [Call_Approve False []] zero_DecisionOutput =
       Some \<lparr>Continue = None, StopReason = '''', SuppressOutput = False,
         Decision = Some ''block'', Reason = Some ''rejected''\<rparr> \<and>
     Decision \<lparr>Continue = None, StopReason = '''', SuppressOutput = False,
       Decision = Some ''block'', Reason = Some ''rejected''\<rparr> = Some ''block''
     \<longrightarrow> Reason \<lparr>Continue = None, StopReason = '''', SuppressOutput = False,
       Decision = Some ''block'', Reason = Some ''rejected''\<rparr> \<noteq> None"
    by (rule conjunct1)
  with built blocked show ?thesis by blast
qed

text \<open>
  The claim as stated asks for a non-empty reason. \<^verbatim>\<open>Block("")\<close>, \<^verbatim>\<open>NotAllowed("")\<close>
  and \<^verbatim>\<open>Approve(false, "")\<close> each give a verdict with decision \<^verbatim>\<open>block\<close> whose reason is
  the empty string: no fallback replaces it.
\<close>

theorem block_reason_nonempty_counterexample:
  "construct Type_PostToolUseOutput [Call_Block ''''] zero_DecisionOutput =
     Some \<lparr>Continue = None, StopReason = '''', SuppressOutput = False,
       Decision = Some ''block'', Reason = Some ''''\<rparr> \<and>
   construct Type_StopOutput [Call_NotAllowed ''''] zero_DecisionOutput =
     Some \<lparr>Continue = None, StopReason = '''', SuppressOutput = False,
       Decision = Some ''block'', Reason = Some ''''\<rparr> \<and>
   construct Type_PreToolUseOutput [Call_Approve False ['''']] zero_DecisionOutput =
     Some \<lparr>Continue = None, StopReason = '''', SuppressOutput = False,
       Decision = Some ''block'', Reason = Some ''''\<rparr>"
  by (simp add: PostToolUseOutput_Block_def StopOutput_NotAllowed_def
      PreToolUseOutput_Approve_def zero_DecisionOutput_def Let_def)

text \<open>
  C1. \<^verbatim>\<open>ExitWithMessage\<close> on a success result, here the one \<^verbatim>\<open>listPlugins\<close> returns when
  no plugin is loaded: the payload is passed to \<^verbatim>\<open>fmt.Fprintf(os.Stderr, r.Data)\<close>, so it
  goes to standard error and nothing is written to standard output; the process then
  exits with code 0. The claim, the comment on \<^verbatim>\<open>ExitCodeSuccess\<close> and the README have
  the payload of exit code 0 on standard output.
\<close>

theorem ExitWithMessage_success_writes_stderr:
  "ExitWithMessage (NewSuccess ''No plugins loaded.\<newline>'') =
     [Fprintf os_Stderr ''No plugins loaded.\<newline>'' [], os_Exit 0]"
  by (simp add: ExitWithMessage_def NewSuccess_def IsSuccess_def ExitCodeSuccess_def)

section \<open>Properties of types/plugin.go\<close>

text \<open>
  C3, as the code has it. For every registered name, \<^verbatim>\<open>UnloadPlugin\<close> calls the
  \<^verbatim>\<open>Cleanup\<close> of that instance, once and before anything else. When \<^verbatim>\<open>Cleanup\<close> returns
  no error, the instance and its path are removed from the two maps and no error is
  returned. When \<^verbatim>\<open>Cleanup\<close> fails, \<^verbatim>\<open>UnloadPlugin\<close> returns an error that names the
  plugin and the failure, and returns before the removal: the manager is unchanged and
  the plugin stays registered.
\<close>

theorem UnloadPlugin_cases:
  assumes "plugins pm name = Some pluginInstance"
  shows "cleanups (UnloadPlugin name pm) = [name] \<and>
    (Cleanup pluginInstance = None \<longrightarrow>
       error (UnloadPlugin name pm) = None \<and>
       manager (UnloadPlugin name pm) =
         pm\<lparr>plugins := (plugins pm)(name := None),
            pluginPaths := (pluginPaths pm)(name := None)\<rparr>) \<and>
    (\<forall>err. Cleanup pluginInstance = Some err \<longrightarrow>
       error (UnloadPlugin name pm) =
         Some (''failed to cleanup plugin '' @ name @ '': '' @ err) \<and>
       manager (UnloadPlugin name pm) = pm)"
  using assms by (cases "Cleanup pluginInstance") (simp_all add: UnloadPlugin_def)

theorem UnloadPlugin_cases_witness:
  "plugins example_manager ''env.so'' = Some (UnimplementedPlugin example_metadata) \<and>
   Cleanup (UnimplementedPlugin example_metadata) = None \<and>
   cleanups (UnloadPlugin ''env.so'' example_manager) = [''env.so''] \<and>
   error (UnloadPlugin ''env.so'' example_manager) = None \<and>
   plugins (manager (UnloadPlugin ''env.so'' example_manager)) ''env.so'' = None \<and>
   pluginPaths (manager (UnloadPlugin ''env.so'' example_manager)) ''env.so'' = None \<and>
   plugins example_manager ''gocheck.so'' = Some busy_plugin \<and>
   Cleanup busy_plugin = Some ''device busy'' \<and>
   cleanups (UnloadPlugin ''gocheck.so'' example_manager) = [''gocheck.so''] \<and>
   error (UnloadPlugin ''gocheck.so'' example_manager) =
     Some ''failed to cleanup plugin gocheck.so: device busy'' \<and>
   manager (UnloadPlugin ''gocheck.so'' example_manager) = example_manager"
proof -
  have env: "plugins example_manager ''env.so'' = Some (UnimplementedPlugin example_metadata)"
    by (simp add: example_manager_def)
  have quiet: "Cleanup (UnimplementedPlugin example_metadata) = None"
    by (simp add: UnimplementedPlugin_def)
  have gocheck: "plugins example_manager ''gocheck.so'' = Some busy_plugin"
    by (simp add: example_manager_def)
  have busy: "Cleanup busy_plugin = Some ''device busy''"
    by (simp add: busy_plugin_def)
  from UnloadPlugin_cases [OF env] quiet
  have removed: "cleanups (UnloadPlugin ''env.so'' example_manager) = [''env.so''] \<and>
      error (UnloadPlugin ''env.so'' example_manager) = None \<and>
      plugins (manager (UnloadPlugin ''env.so'' example_manager)) ''env.so'' = None \<and>
      pluginPaths (manager (UnloadPlugin ''env.so'' example_manager)) ''env.so'' = None"
    by simp
  from UnloadPlugin_cases [OF gocheck] busy
  have kept: "cleanups (UnloadPlugin ''gocheck.so'' example_manager) = [''gocheck.so''] \<and>
      error (UnloadPlugin ''gocheck.so'' example_manager) =
        Some ''failed to cleanup plugin gocheck.so: device busy'' \<and>
      manager (UnloadPlugin ''gocheck.so'' example_manager) = example_manager"
    by simp
  from env quiet gocheck busy removed kept show ?thesis by blast
qed

text \<open>
  The claim as stated has the instance removed in all cases. Unloading
  \<^verbatim>\<open>gocheck.so\<close>, whose \<^verbatim>\<open>Cleanup\<close> fails, returns the error and leaves the plugin and its
  path in the manager.
\<close>

theorem UnloadPlugin_cleanup_failure_counterexample:
  "error (UnloadPlugin ''gocheck.so'' example_manager) =
     Some ''failed to cleanup plugin gocheck.so: device busy'' \<and>
   plugins (manager (UnloadPlugin ''gocheck.so'' example_manager)) ''gocheck.so'' =
     Some busy_plugin \<and>
   pluginPaths (manager (UnloadPlugin ''gocheck.so'' example_manager)) ''gocheck.so'' =
     Some ''/home/u/.claude/hooks/gocheck.so''"
  by (simp add: UnloadPlugin_def example_manager_def busy_plugin_def)

lemma Shutdown_range_empty: "Shutdown_range Map.empty names errors = ([], errors)"
  by (induction names) simp_all

text \<open>
  C7. After a first \<^verbatim>\<open>Shutdown\<close>, on any manager and whatever its \<^verbatim>\<open>Cleanup\<close> calls
  returned, the two maps of the manager are empty; a second \<^verbatim>\<open>Shutdown\<close> then returns
  no error (and calls no \<^verbatim>\<open>Cleanup\<close>).
\<close>

theorem Shutdown_twice:
  "plugins (manager (Shutdown names pm)) = Map.empty \<and>
   pluginPaths (manager (Shutdown names pm)) = Map.empty \<and>
   error (Shutdown names1 (manager (Shutdown names pm))) = None \<and>
   cleanups (Shutdown names1 (manager (Shutdown names pm))) = []"
  by (simp add: Shutdown_def Shutdown_range_empty split: prod.splits)

text \<open>
  A first \<^verbatim>\<open>Shutdown\<close> one of whose \<^verbatim>\<open>Cleanup\<close> calls fails: the failure is reported
  and the maps are cleared all the same.
\<close>

lemma Shutdown_example:
  "Shutdown [''gocheck.so'', ''env.so''] example_manager =
     \<lparr>manager = \<lparr>plugins = Map.empty, pluginPaths = Map.empty, pluginDir = ''''\<rparr>,
      cleanups = [''gocheck.so'', ''env.so''],
      error = Some ''shutdown errors: failed to cleanup plugin gocheck.so: device busy''\<rparr>"
  by (simp add: Shutdown_def example_manager_def busy_plugin_def UnimplementedPlugin_def)

section \<open>Properties of main.go: one plugin\<close>

lemmas handler_defs =
  handlePreToolUse_def handlePostToolUse_def handleNotification_def handleStop_def
  handleSubagentStop_def

lemma executePlugin_error:
  assumes "hook_method lib hookType inputData plugin = MethodReturns result (Some text)"
  shows "executePlugin lib hookType inputData plugin = Called (NewError text)"
  using assms
  by (auto simp: hook_method_def executePlugin_def hookHandlers_def handler_defs
      processPluginResult_def split: if_splits sum.splits returned.splits)

lemma executePlugin_verdict:
  assumes "hook_method lib hookType inputData plugin =
             MethodReturns (ptr_DecisionOutput (Some v)) err"
  shows "executePlugin lib hookType inputData plugin =
           Called (processPluginResult lib (ptr_DecisionOutput (Some v)) err)"
  using assms
  by (auto simp: hook_method_def executePlugin_def hookHandlers_def handler_defs
      withDefault_def split: if_splits sum.splits returned.splits)

lemma executePlugin_Skipped:
  "executePlugin lib hookType inputData plugin = Skipped result \<Longrightarrow> \<not> IsSuccess result"
  by (auto simp: executePlugin_def hookHandlers_def handler_defs NewError_def IsSuccess_def
      ExitCodeError_def ExitCodeSuccess_def split: if_splits sum.splits returned.splits)

lemma read_back_valid: "valid_from pending s \<Longrightarrow> read_back pending s = s"
proof (induction s arbitrary: pending)
  case Nil
  then show ?case by simp
next
  case (Cons c s)
  then show ?case
    by (cases pending) (auto split: option.splits)
qed

lemma members_decision:
  "map_of (rev (concat (map (encode_field lib) (DecisionOutput_fields v)))) ''decision'' =
     (case Decision v of
        None \<Rightarrow> (if honours_omitzero lib then None else Some JNull)
      | Some d \<Rightarrow> Some (JString (read_back 0 d)))"
  by (simp add: DecisionOutput_fields_def BaseHookOutput_fields_def split: option.splits)

lemma members_reason:
  "map_of (rev (concat (map (encode_field lib) (DecisionOutput_fields v)))) ''reason'' =
     (case Reason v of
        None \<Rightarrow> (if honours_omitzero lib then None else Some JNull)
      | Some r \<Rightarrow> Some (JString (read_back 0 r)))"
  by (simp add: DecisionOutput_fields_def BaseHookOutput_fields_def split: option.splits)


lemma processPluginResult_block:
  assumes "Decision v = Some ''block''"
  shows "processPluginResult lib (ptr_DecisionOutput (Some v)) None =
    \<lparr>Code = 2,
     Error = (case Reason v of None \<Rightarrow> '''' | Some reason \<Rightarrow> read_back 0 reason) @
       ''\<newline>'',
     Data = ''''\<rparr>"
  using assms
  by (simp add: processPluginResult_def checkBlockDecision_def members_decision members_reason
      DecodeRune_size_def byte_def index_def ExitCodeBlockingError_def split: option.splits)




lemma set_decision_present:
  "Decision v = Some d \<Longrightarrow>
   \<exists>m. json_Unmarshal_map (json_Marshal lib (ptr_DecisionOutput (Some v))) = Some m \<and>
       m ''decision'' = Some (JString (read_back 0 d))"
  by (simp add: members_decision)

lemma example_decode: "Unmarshal_ToolInput example_json example_inputData = Inr example_ToolInput"
  by (simp add: example_json_def)

text \<open>
  C6. A plugin whose \<^verbatim>\<open>PreToolUse\<close> returns a nil output and a nil error: \<^verbatim>\<open>withDefault\<close>
  allocates the default verdict, with decision \<^verbatim>\<open>approve\<close> and continue true, and the
  result for this plugin is a success, exit code 0, whose data is that verdict encoded.
\<close>

theorem PreToolUse_absent_verdict_default:
  assumes "Unmarshal_ToolInput lib inputData = Inr input"
    and "PreToolUse plugin input = Returns None None"
  shows "withDefault PreToolUseOutput_Default zero_DecisionOutput None =
      Some \<lparr>Continue = Some True, StopReason = '''', SuppressOutput = False,
             Decision = Some ''approve'', Reason = Some ''''\<rparr> \<and>
    executePlugin lib ''PreToolUse'' inputData plugin =
      Called \<lparr>Code = 0, Error = '''',
        Data = encoded lib
          (JObject [(''continue'', JBool True), (''decision'', JString ''approve''),
                    (''reason'', JString '''')])\<rparr>"
proof -
  have default: "withDefault PreToolUseOutput_Default zero_DecisionOutput None =
      Some \<lparr>Continue = Some True, StopReason = '''', SuppressOutput = False,
             Decision = Some ''approve'', Reason = Some ''''\<rparr>"
    by (simp add: withDefault_def PreToolUseOutput_Default_def PreToolUseOutput_Approve_def
        zero_DecisionOutput_def)
  have "handlePreToolUse lib inputData plugin =
      Called (processPluginResult lib
        (ptr_DecisionOutput (withDefault PreToolUseOutput_Default zero_DecisionOutput None))
        None)"
    using assms by (simp add: handlePreToolUse_def)
  also have "\<dots> =
      Called \<lparr>Code = 0, Error = '''',
        Data = encoded lib
          (JObject [(''continue'', JBool True), (''decision'', JString ''approve''),
                    (''reason'', JString '''')])\<rparr>"
    unfolding default
    by (simp add: processPluginResult_def DecisionOutput_fields_def
        BaseHookOutput_fields_def DecodeRune_size_def byte_def checkBlockDecision_def index_def NewSuccess_def
        ExitCodeSuccess_def)
  finally show ?thesis
    using default by (simp add: executePlugin_def hookHandlers_def)
qed

theorem PreToolUse_absent_verdict_default_witness:
  "Unmarshal_ToolInput example_json example_inputData = Inr example_ToolInput \<and>
   PreToolUse silent_plugin example_ToolInput = Returns None None \<and>
   executePlugin example_json ''PreToolUse'' example_inputData silent_plugin =
     Called \<lparr>Code = 0, Error = '''',
       Data = encoded example_json
         (JObject [(''continue'', JBool True), (''decision'', JString ''approve''),
                   (''reason'', JString '''')])\<rparr>"
proof -
  have absent: "PreToolUse silent_plugin example_ToolInput = Returns None None"
    by (simp add: silent_plugin_def UnimplementedPlugin_def)
  from PreToolUse_absent_verdict_default [OF example_decode absent, THEN conjunct2]
    example_decode absent
  show ?thesis by blast
qed

section \<open>Properties of main.go: the chain of plugins\<close>

lemma range_plugins_bounds:
  "k \<in> set (fst (range_plugins lib hookType inputData i ps lastResult))
     \<Longrightarrow> i \<le> k \<and> k < i + length ps"
proof (induction ps arbitrary: i lastResult)
  case Nil
  then show ?case by (simp split: option.splits)
next
  case (Cons p ps)
  show ?case
  proof (cases "executePlugin lib hookType inputData p")
    case (Skipped result)
    with Cons.prems Cons.IH [of "Suc i" "Some result"] show ?thesis
      by (auto split: if_splits)
  next
    case (Called result)
    with Cons.prems Cons.IH [of "Suc i" "Some result"] show ?thesis
      by (auto split: if_splits prod.splits)
  next
    case Panicked
    with Cons.prems show ?thesis by simp
  qed
qed

lemma range_plugins_stops:
  assumes "k \<in> set (fst (range_plugins lib hookType inputData i ps lastResult))"
    and "executePlugin lib hookType inputData (ps ! (k - i)) = Called result"
    and "\<not> IsSuccess result"
  shows "range_plugins lib hookType inputData i ps lastResult =
           ([i..<Suc k], Ended (ExitWithMessage result))"
  using assms
proof (induction ps arbitrary: i lastResult)
  case Nil
  then show ?case by (simp split: option.splits)
next
  case (Cons p ps)
  show ?case
  proof (cases "k = i")
    case True
    with Cons.prems show ?thesis by simp
  next
    case False
    from range_plugins_bounds [OF Cons.prems(1)] False have k: "Suc i \<le> k" by simp
    then have "k - i = Suc (k - Suc i)" by arith
    then have nth: "(p # ps) ! (k - i) = ps ! (k - Suc i)" by simp
    have upt: "[i..<Suc k] = i # [Suc i..<Suc k]"
      using k by (simp add: upt_conv_Cons)
    show ?thesis
    proof (cases "executePlugin lib hookType inputData p")
      case (Skipped r)
      then have "\<not> IsSuccess r" by (rule executePlugin_Skipped)
      with Skipped Cons.prems(1) show ?thesis by simp
    next
      case (Called r)
      show ?thesis
      proof (cases "IsSuccess r")
        case True
        with Called Cons.prems(1) False
        have "k \<in> set (fst (range_plugins lib hookType inputData (Suc i) ps (Some r)))"
          by (auto split: prod.splits)
        from Cons.IH [OF this] Cons.prems(2,3) nth
        have "range_plugins lib hookType inputData (Suc i) ps (Some r) =
            ([Suc i..<Suc k], Ended (ExitWithMessage result))"
          by simp
        with Called True upt show ?thesis by simp
      next
        case False
        with Called Cons.prems(1) \<open>k \<noteq> i\<close> show ?thesis by simp
      qed
    next
      case Panicked
      with Cons.prems(1) False show ?thesis by simp
    qed
  qed
qed

lemma main_execute_stops:
  assumes "readAndParseInput lib stdin = Inr input"
    and "extractHookType input = Inr hookType"
    and "Marshal_map lib input = Inr inputData"
    and "k \<in> set (invoked (main_execute lib loaded stdin))"
    and "executePlugin lib hookType inputData (loaded ! k) = Called result"
    and "\<not> IsSuccess result"
  shows "main_execute lib loaded stdin =
           \<lparr>invoked = [0..<Suc k], effects = ExitWithMessage result\<rparr>"
proof (cases "length loaded = 0")
  case True
  with assms(4) show ?thesis
    by (simp add: main_execute_def handleExecuteCommand_def)
next
  case False
  with assms(1-3) have run:
    "handleExecuteCommand lib loaded stdin = range_plugins lib hookType inputData 0 loaded None"
    by (simp add: handleExecuteCommand_def)
  with assms(4) have "k \<in> set (fst (range_plugins lib hookType inputData 0 loaded None))"
    by (simp add: main_execute_def split: prod.splits)
  from range_plugins_stops [OF this] assms(5,6)
  have "range_plugins lib hookType inputData 0 loaded None =
      ([0..<Suc k], Ended (ExitWithMessage result))"
    by simp
  with run show ?thesis by (simp add: main_execute_def)
qed

lemma example_parse:
  "readAndParseInput example_json (Inr example_stdin) = Inr example_input"
  by (simp add: readAndParseInput_def readStdin_def example_json_def)

lemma example_hookType: "extractHookType example_input = Inr ''PreToolUse''"
  by (simp add: extractHookType_def example_input_def index_def)

lemma example_marshal: "Marshal_map example_json example_input = Inr example_inputData"
  by (simp add: example_json_def example_input_def)

lemma example_silent:
  "executePlugin example_json ''PreToolUse'' example_inputData silent_plugin =
     Called (NewSuccess (encoded example_json approve_document))"
  by (simp add: executePlugin_def hookHandlers_def handlePreToolUse_def example_decode
      silent_plugin_def UnimplementedPlugin_def withDefault_def PreToolUseOutput_Default_def
      PreToolUseOutput_Approve_def zero_DecisionOutput_def processPluginResult_def
      DecisionOutput_fields_def BaseHookOutput_fields_def DecodeRune_size_def byte_def checkBlockDecision_def index_def
      approve_document_def)

lemma example_guard_method:
  "hook_method example_json ''PreToolUse'' example_inputData guard_plugin =
     MethodReturns
       (ptr_DecisionOutput
         (Some \<lparr>Continue = None, StopReason = '''', SuppressOutput = False,
                Decision = Some ''block'',
                Reason = Some ''Access to .env files is not allowed. File: .env''\<rparr>))
       None"
  by (simp add: hook_method_def example_decode guard_plugin_def UnimplementedPlugin_def
      GetFilePath_def index_def example_ToolInput_def PreToolUseOutput_Approve_def
      zero_DecisionOutput_def)

lemma example_failing_method:
  "hook_method example_json ''PreToolUse'' example_inputData failing_plugin =
     MethodReturns
       (ptr_DecisionOutput
         (Some \<lparr>Continue = None, StopReason = '''', SuppressOutput = False,
                Decision = Some ''block'', Reason = Some ''no''\<rparr>))
       (Some ''plugin failed'')"
  by (simp add: hook_method_def example_decode failing_plugin_def UnimplementedPlugin_def
      PreToolUseOutput_Approve_def zero_DecisionOutput_def)

lemma example_reason_valid:
  "utf8_ValidString ''Access to .env files is not allowed. File: .env''"
  by (simp add: utf8_ValidString_def DecodeRune_size_def byte_def)

lemma example_guard:
  "executePlugin example_json ''PreToolUse'' example_inputData guard_plugin =
     Called \<lparr>Code = 2, Error = ''Access to .env files is not allowed. File: .env\<newline>'',
             Data = ''''\<rparr>"
  using executePlugin_verdict [OF example_guard_method]
  by (simp add: processPluginResult_block DecodeRune_size_def byte_def)

lemma example_failing:
  "executePlugin example_json ''PreToolUse'' example_inputData failing_plugin =
     Called (NewError ''plugin failed'')"
  using executePlugin_error [OF example_failing_method] .

lemma example_guard_invoked:
  "invoked (main_execute example_json
      [silent_plugin, guard_plugin, UnimplementedPlugin example_metadata]
      (Inr example_stdin)) = [0, 1]"
  by (simp add: main_execute_def handleExecuteCommand_def example_parse example_hookType
      example_marshal example_silent example_guard NewSuccess_def IsSuccess_def
      ExitCodeSuccess_def)

lemma example_failing_invoked:
  "invoked (main_execute example_json
      [silent_plugin, failing_plugin, UnimplementedPlugin example_metadata]
      (Inr example_stdin)) = [0, 1]"
  by (simp add: main_execute_def handleExecuteCommand_def example_parse example_hookType
      example_marshal example_silent example_failing NewSuccess_def NewError_def IsSuccess_def
      ExitCodeSuccess_def ExitCodeError_def)

text \<open>
  C4. The event is decoded and dispatched, and the hook method of the plugin at position
  \<open>k\<close> is called and returns an error, with an output or without one. Then the
  plugins called are those at positions 0 to \<open>k\<close> and no later one; the result is
  \<^verbatim>\<open>NewError\<close> of the error text whatever the output holds (a decision in it is not
  read); the text, when it is not empty, is passed to \<^verbatim>\<open>Fprintf\<close> on standard error
  and the process exits with code 1.
\<close>

theorem error_stops_chain:
  assumes "readAndParseInput lib stdin = Inr input"
    and "extractHookType input = Inr hookType"
    and "Marshal_map lib input = Inr inputData"
    and "k \<in> set (invoked (main_execute lib loaded stdin))"
    and "hook_method lib hookType inputData (loaded ! k) = MethodReturns result (Some text)"
  shows "invoked (main_execute lib loaded stdin) = [0..<Suc k] \<and>
    effects (main_execute lib loaded stdin) =
      ExitWithMessage \<lparr>Code = 1, Error = text, Data = ''''\<rparr> \<and>
    effects (main_execute lib loaded stdin) =
      (if text = '''' then [] else [Fprintf os_Stderr text []]) @ [os_Exit 1]"
proof -
  have called: "executePlugin lib hookType inputData (loaded ! k) = Called (NewError text)"
    by (rule executePlugin_error [OF assms(5)])
  have failed: "\<not> IsSuccess (NewError text)"
    by (simp add: IsSuccess_def NewError_def ExitCodeSuccess_def ExitCodeError_def)
  have "main_execute lib loaded stdin =
      \<lparr>invoked = [0..<Suc k], effects = ExitWithMessage (NewError text)\<rparr>"
    by (rule main_execute_stops [OF assms(1-4) called failed])
  then show ?thesis
    by (simp add: ExitWithMessage_def IsSuccess_def NewError_def ExitCodeSuccess_def
        ExitCodeError_def)
qed

theorem error_stops_chain_witness:
  "readAndParseInput example_json (Inr example_stdin) = Inr example_input \<and>
   extractHookType example_input = Inr ''PreToolUse'' \<and>
   Marshal_map example_json example_input = Inr example_inputData \<and>
   1 \<in> set (invoked (main_execute example_json
      [silent_plugin, failing_plugin, UnimplementedPlugin example_metadata]
      (Inr example_stdin))) \<and>
   invoked (main_execute example_json
      [silent_plugin, failing_plugin, UnimplementedPlugin example_metadata]
      (Inr example_stdin)) = [0, 1] \<and>
   effects (main_execute example_json
      [silent_plugin, failing_plugin, UnimplementedPlugin example_metadata]
      (Inr example_stdin)) = [Fprintf os_Stderr ''plugin failed'' [], os_Exit 1]"
proof -
  let ?loaded = "[silent_plugin, failing_plugin, UnimplementedPlugin example_metadata]"
  have k: "1 \<in> set (invoked (main_execute example_json ?loaded (Inr example_stdin)))"
    by (simp add: example_failing_invoked)
  have returned: "hook_method example_json ''PreToolUse'' example_inputData (?loaded ! 1) =
      MethodReturns
        (ptr_DecisionOutput
          (Some \<lparr>Continue = None, StopReason = '''', SuppressOutput = False,
                 Decision = Some ''block'', Reason = Some ''no''\<rparr>))
        (Some ''plugin failed'')"
    by (simp add: example_failing_method)
  from error_stops_chain [OF example_parse example_hookType example_marshal k returned,
      THEN conjunct2, THEN conjunct2]
  have "effects (main_execute example_json ?loaded (Inr example_stdin)) =
      [Fprintf os_Stderr ''plugin failed'' [], os_Exit 1]"
    by simp
  with k show ?thesis
    by (simp add: example_parse example_hookType example_marshal example_failing_invoked)
qed

text \<open>
  C2, as the code has it. The event is decoded and dispatched, and the hook method of the
  plugin at position \<open>k\<close> is called and returns a verdict with decision \<^verbatim>\<open>block\<close> and no
  error. Then the plugins called are those at positions 0 to \<open>k\<close> and no later one;
  the result has code 2 and as error the reason of that verdict as
  \<^verbatim>\<open>checkBlockDecision\<close> reads it back from the JSON encoding of the verdict (empty when
  the reason is nil, and with U+FFFD for each byte that is not part of a valid UTF-8
  encoding), followed by one newline; it is passed to \<^verbatim>\<open>Fprintf\<close> on standard error and
  the process exits with code 2. When the reason is valid UTF-8, what is read back is
  the reason itself.
\<close>

theorem block_stops_chain:
  assumes "readAndParseInput lib stdin = Inr input"
    and "extractHookType input = Inr hookType"
    and "Marshal_map lib input = Inr inputData"
    and "k \<in> set (invoked (main_execute lib loaded stdin))"
    and "hook_method lib hookType inputData (loaded ! k) =
           MethodReturns (ptr_DecisionOutput (Some v)) None"
    and "Decision v = Some ''block''"
  shows "invoked (main_execute lib loaded stdin) = [0..<Suc k] \<and>
    effects (main_execute lib loaded stdin) =
      ExitWithMessage
        \<lparr>Code = 2,
         Error = (case Reason v of None \<Rightarrow> '''' | Some reason \<Rightarrow> read_back 0 reason) @
           ''\<newline>'',
         Data = ''''\<rparr> \<and>
    effects (main_execute lib loaded stdin) =
      [Fprintf os_Stderr
         ((case Reason v of None \<Rightarrow> '''' | Some reason \<Rightarrow> read_back 0 reason) @
           ''\<newline>'') [],
       os_Exit 2] \<and>
    ((case Reason v of None \<Rightarrow> True | Some reason \<Rightarrow> utf8_ValidString reason) \<longrightarrow>
       effects (main_execute lib loaded stdin) =
         [Fprintf os_Stderr
            ((case Reason v of None \<Rightarrow> '''' | Some reason \<Rightarrow> reason) @ ''\<newline>'') [],
          os_Exit 2])"
proof -
  let ?result = "\<lparr>Code = 2,
      Error = (case Reason v of None \<Rightarrow> '''' | Some reason \<Rightarrow> read_back 0 reason) @
        ''\<newline>'',
      Data = ''''\<rparr>"
  have called: "executePlugin lib hookType inputData (loaded ! k) = Called ?result"
    using executePlugin_verdict [OF assms(5)] processPluginResult_block [OF assms(6)]
    by simp
  have failed: "\<not> IsSuccess ?result"
    by (simp add: IsSuccess_def ExitCodeSuccess_def)
  have run: "main_execute lib loaded stdin =
      \<lparr>invoked = [0..<Suc k], effects = ExitWithMessage ?result\<rparr>"
    by (rule main_execute_stops [OF assms(1-4) called failed])
  have same: "(case Reason v of None \<Rightarrow> '''' | Some reason \<Rightarrow> read_back 0 reason) =
      (case Reason v of None \<Rightarrow> '''' | Some reason \<Rightarrow> reason)"
    if "case Reason v of None \<Rightarrow> True | Some reason \<Rightarrow> utf8_ValidString reason"
    using that by (auto simp: utf8_ValidString_def read_back_valid split: option.splits)
  from run same show ?thesis
    by (simp add: ExitWithMessage_def IsSuccess_def ExitCodeSuccess_def)
qed

theorem block_stops_chain_witness:
  "readAndParseInput example_json (Inr example_stdin) = Inr example_input \<and>
   extractHookType example_input = Inr ''PreToolUse'' \<and>
   Marshal_map example_json example_input = Inr example_inputData \<and>
   1 \<in> set (invoked (main_execute example_json
      [silent_plugin, guard_plugin, UnimplementedPlugin example_metadata]
      (Inr example_stdin))) \<and>
   utf8_ValidString ''Access to .env files is not allowed. File: .env'' \<and>
   invoked (main_execute example_json
      [silent_plugin, guard_plugin, UnimplementedPlugin example_metadata]
      (Inr example_stdin)) = [0, 1] \<and>
   effects (main_execute example_json
      [silent_plugin, guard_plugin, UnimplementedPlugin example_metadata]
      (Inr example_stdin)) =
     [Fprintf os_Stderr ''Access to .env files is not allowed. File: .env\<newline>'' [],
      os_Exit 2]"
proof -
  let ?loaded = "[silent_plugin, guard_plugin, UnimplementedPlugin example_metadata]"
  let ?v = "\<lparr>Continue = None, StopReason = '''', SuppressOutput = False,
      Decision = Some ''block'',
      Reason = Some ''Access to .env files is not allowed. File: .env''\<rparr>"
  have k: "1 \<in> set (invoked (main_execute example_json ?loaded (Inr example_stdin)))"
    by (simp add: example_guard_invoked)
  have returned: "hook_method example_json ''PreToolUse'' example_inputData (?loaded ! 1) =
      MethodReturns (ptr_DecisionOutput (Some ?v)) None"
    by (simp add: example_guard_method)
  have blocked: "Decision ?v = Some ''block''" by simp
  have valid: "utf8_ValidString ''Access to .env files is not allowed. File: .env''"
    by (rule example_reason_valid)
  from block_stops_chain [OF example_parse example_hookType example_marshal k returned blocked,
      THEN conjunct2, THEN conjunct2, THEN conjunct2] valid
  have "effects (main_execute example_json ?loaded (Inr example_stdin)) =
      [Fprintf os_Stderr ''Access to .env files is not allowed. File: .env\<newline>'' [],
      os_Exit 2]"
    by simp
  with k valid show ?thesis
    by (simp add: example_parse example_hookType example_marshal example_guard_invoked)
qed

text \<open>
  The claim as stated has the reason itself in the payload. The one plugin of this chain
  blocks with the reason \<^verbatim>\<open>0xFF\<close>; the payload is U+FFFD and a newline, the bytes
  \<^verbatim>\<open>EF BF BD 0A\<close>, and not \<^verbatim>\<open>FF 0A\<close>.
\<close>

theorem block_reason_read_back_counterexample:
  "hook_method example_json ''PreToolUse'' example_inputData garbled_plugin =
     MethodReturns
       (ptr_DecisionOutput
         (Some \<lparr>Continue = None, StopReason = '''', SuppressOutput = False,
                Decision = Some ''block'', Reason = Some [CHR 0xFF]\<rparr>))
       None \<and>
   invoked (main_execute example_json [garbled_plugin] (Inr example_stdin)) = [0] \<and>
   effects (main_execute example_json [garbled_plugin] (Inr example_stdin)) =
     [Fprintf os_Stderr [CHR 0xEF, CHR 0xBF, CHR 0xBD, CHR 0x0A] [], os_Exit 2] \<and>
   [CHR 0xEF, CHR 0xBF, CHR 0xBD, CHR 0x0A] \<noteq> [CHR 0xFF] @ ''\<newline>''"
proof -
  have returned: "hook_method example_json ''PreToolUse'' example_inputData garbled_plugin =
      MethodReturns
        (ptr_DecisionOutput
          (Some \<lparr>Continue = None, StopReason = '''', SuppressOutput = False,
                 Decision = Some ''block'', Reason = Some [CHR 0xFF]\<rparr>))
        None"
    by (simp add: hook_method_def example_decode garbled_plugin_def UnimplementedPlugin_def
        PreToolUseOutput_Approve_def zero_DecisionOutput_def)
  have "executePlugin example_json ''PreToolUse'' example_inputData garbled_plugin =
      Called \<lparr>Code = 2, Error = [CHR 0xEF, CHR 0xBF, CHR 0xBD, CHR 0x0A], Data = ''''\<rparr>"
    using executePlugin_verdict [OF returned]
    by (simp add: processPluginResult_block DecodeRune_size_def byte_def)
  then have "main_execute example_json [garbled_plugin] (Inr example_stdin) =
      \<lparr>invoked = [0],
       effects = [Fprintf os_Stderr [CHR 0xEF, CHR 0xBF, CHR 0xBD, CHR 0x0A] [], os_Exit 2]\<rparr>"
    by (simp add: main_execute_def handleExecuteCommand_def example_parse example_hookType
        example_marshal IsSuccess_def ExitCodeSuccess_def ExitWithMessage_def)
  with returned show ?thesis by simp
qed

lemma hookHandlers_unknown:
  "h \<notin> {''PreToolUse'', ''PostToolUse'', ''Notification'', ''Stop'', ''SubagentStop''}
     \<Longrightarrow> hookHandlers h = None"
  by (simp add: hookHandlers_def)

lemma error_return_effects:
  "handleExecuteCommand lib loaded stdin = ([], Return (Some err)) \<Longrightarrow>
   main_execute lib loaded stdin =
     \<lparr>invoked = [],
      effects = [Fprintf os_Stderr ''error: %v\<newline>'' [err], PrintHelp, os_Exit 1]\<rparr>"
  by (simp add: main_execute_def ExitCodeError_def)

lemma extractHookType_missing:
  assumes "\<forall>h. input ''hook_event_name'' \<noteq> Some (JString h)"
  shows "extractHookType input = Inl ''missing or invalid hook_event_name''"
proof (cases "input ''hook_event_name''")
  case None
  then show ?thesis by (simp add: extractHookType_def index_def)
next
  case (Some v)
  with assms show ?thesis
    by (cases v) (simp_all add: extractHookType_def index_def)
qed

lemma extractHookType_string:
  "input ''hook_event_name'' = Some (JString h) \<Longrightarrow> extractHookType input = Inr h"
  by (simp add: extractHookType_def index_def)

lemma unknown_parse:
  "readAndParseInput example_json (Inr unknown_stdin) = Inr unknown_input"
  by (simp add: readAndParseInput_def readStdin_def example_json_def unknown_stdin_def
      example_stdin_def)

lemma untyped_parse:
  "readAndParseInput example_json (Inr untyped_stdin) = Inr untyped_input"
  by (simp add: readAndParseInput_def readStdin_def example_json_def unknown_stdin_def
      example_stdin_def untyped_stdin_def)

lemma empty_parse:
  "readAndParseInput example_json (Inr ''{}'') = Inr Map.empty"
  by (simp add: readAndParseInput_def readStdin_def example_json_def unknown_stdin_def
      example_stdin_def untyped_stdin_def)

text \<open>
  C5. An event whose \<^verbatim>\<open>hook_event_name\<close> is missing, is not a string, or is a string
  other than the five hook types: no hook method of any plugin is called, and the
  process ends with \<^verbatim>\<open>os.Exit(1)\<close>, whatever plugins are loaded.
\<close>

theorem unrecognized_kind_exits_1:
  assumes "readAndParseInput lib stdin = Inr input"
    and "input ''hook_event_name'' = None \<or>
         (\<exists>v. input ''hook_event_name'' = Some v \<and> (\<forall>h. v \<noteq> JString h)) \<or>
         (\<exists>h. input ''hook_event_name'' = Some (JString h) \<and>
              h \<notin> {''PreToolUse'', ''PostToolUse'', ''Notification'', ''Stop'',
                    ''SubagentStop''})"
  shows "invoked (main_execute lib loaded stdin) = [] \<and>
    (\<exists>out. effects (main_execute lib loaded stdin) = out @ [os_Exit 1])"
proof (cases loaded)
  case Nil
  then have "handleExecuteCommand lib loaded stdin = ([], Return (Some ''no plugins loaded''))"
    by (simp add: handleExecuteCommand_def)
  from error_return_effects [OF this] show ?thesis by simp
next
  case (Cons plugin rest)
  show ?thesis
  proof (cases "\<exists>h. input ''hook_event_name'' = Some (JString h)")
    case False
    then have "extractHookType input = Inl ''missing or invalid hook_event_name''"
      by (intro extractHookType_missing) simp
    with assms(1) Cons have "handleExecuteCommand lib loaded stdin =
        ([], Return (Some ''missing or invalid hook_event_name''))"
      by (simp add: handleExecuteCommand_def)
    from error_return_effects [OF this] show ?thesis by simp
  next
    case True
    then obtain h where h: "input ''hook_event_name'' = Some (JString h)" by blast
    with assms(2) have unknown:
      "h \<notin> {''PreToolUse'', ''PostToolUse'', ''Notification'', ''Stop'', ''SubagentStop''}"
      by auto
    have hookType: "extractHookType input = Inr h"
      using h by (rule extractHookType_string)
    show ?thesis
    proof (cases "Marshal_map lib input")
      case (Inl err)
      with assms(1) Cons hookType have "handleExecuteCommand lib loaded stdin =
          ([], Return (Some (''failed to marshal input: '' @ err)))"
        by (simp add: handleExecuteCommand_def)
      from error_return_effects [OF this] show ?thesis by simp
    next
      case (Inr inputData)
      have "executePlugin lib h inputData plugin =
          Skipped (NewError (''unknown hook type: '' @ h))"
        by (simp add: executePlugin_def hookHandlers_unknown [OF unknown])
      with assms(1) Cons hookType Inr have "handleExecuteCommand lib loaded stdin =
          ([], Ended (ExitWithMessage (NewError (''unknown hook type: '' @ h))))"
        by (simp add: handleExecuteCommand_def NewError_def IsSuccess_def ExitCodeError_def
            ExitCodeSuccess_def)
      then show ?thesis
        by (simp add: main_execute_def ExitWithMessage_def NewError_def IsSuccess_def
            ExitCodeError_def ExitCodeSuccess_def)
    qed
  qed
qed

theorem unrecognized_kind_exits_1_witness:
  "readAndParseInput example_json (Inr ''{}'') = Inr Map.empty \<and>
   Map.empty ''hook_event_name'' = (None :: json option) \<and>
   invoked (main_execute example_json [UnimplementedPlugin example_metadata] (Inr ''{}'')) = [] \<and>
   (\<exists>out. effects (main_execute example_json [UnimplementedPlugin example_metadata]
      (Inr ''{}'')) = out @ [os_Exit 1]) \<and>
   readAndParseInput example_json (Inr untyped_stdin) = Inr untyped_input \<and>
   untyped_input ''hook_event_name'' = Some (JNumber 7 0) \<and>
   invoked (main_execute example_json [UnimplementedPlugin example_metadata]
      (Inr untyped_stdin)) = [] \<and>
   (\<exists>out. effects (main_execute example_json [UnimplementedPlugin example_metadata]
      (Inr untyped_stdin)) = out @ [os_Exit 1]) \<and>
   readAndParseInput example_json (Inr unknown_stdin) = Inr unknown_input \<and>
   unknown_input ''hook_event_name'' = Some (JString ''PreCompact'') \<and>
   invoked (main_execute example_json [UnimplementedPlugin example_metadata]
      (Inr unknown_stdin)) = [] \<and>
   (\<exists>out. effects (main_execute example_json [UnimplementedPlugin example_metadata]
      (Inr unknown_stdin)) = out @ [os_Exit 1])"
proof -
  have missing: "Map.empty ''hook_event_name'' = (None :: json option) \<or>
      (\<exists>v. Map.empty ''hook_event_name'' = Some v \<and> (\<forall>h. v \<noteq> JString h)) \<or>
      (\<exists>h. Map.empty ''hook_event_name'' = Some (JString h) \<and>
           h \<notin> {''PreToolUse'', ''PostToolUse'', ''Notification'', ''Stop'',
                 ''SubagentStop''})"
    by simp
  have untyped: "untyped_input ''hook_event_name'' = None \<or>
      (\<exists>v. untyped_input ''hook_event_name'' = Some v \<and> (\<forall>h. v \<noteq> JString h)) \<or>
      (\<exists>h. untyped_input ''hook_event_name'' = Some (JString h) \<and>
           h \<notin> {''PreToolUse'', ''PostToolUse'', ''Notification'', ''Stop'',
                 ''SubagentStop''})"
    by (simp add: untyped_input_def)
  have unknown: "unknown_input ''hook_event_name'' = None \<or>
      (\<exists>v. unknown_input ''hook_event_name'' = Some v \<and> (\<forall>h. v \<noteq> JString h)) \<or>
      (\<exists>h. unknown_input ''hook_event_name'' = Some (JString h) \<and>
           h \<notin> {''PreToolUse'', ''PostToolUse'', ''Notification'', ''Stop'',
                 ''SubagentStop''})"
    by (simp add: unknown_input_def)
  note unrecognized_kind_exits_1 [OF empty_parse missing]
    unrecognized_kind_exits_1 [OF untyped_parse untyped]
    unrecognized_kind_exits_1 [OF unknown_parse unknown]
  then show ?thesis
    by (simp add: empty_parse untyped_parse unknown_parse untyped_input_def unknown_input_def)
qed

end
